theory Spec2Isabelle
  imports Complex_Main
begin

section \<open>Python values shared by all modules\<close>

text \<open>
  Exceptions are values. \<open>SystemExit\<close> (raised by \<^verbatim>\<open>exit(1)\<close>) is the
  only one below that is not a subclass of Python's \<^verbatim>\<open>Exception\<close>, so an
  \<^verbatim>\<open>except Exception\<close> clause lets it through.
\<close>

datatype exn =
    ValueError
  | NotFittedError
  | IndexError
  | FileNotFoundError
  | UnpicklingError
  | OSError
  | DatabaseError
  | ClientError
  | SystemExit int

fun is_Exception :: "exn \<Rightarrow> bool" where
  "is_Exception (SystemExit _) = False"
| "is_Exception _ = True"

text \<open>
  A statement that may raise and that mutates the state \<open>'s\<close> returns the raised
  exception or its value, together with the state reached. \<^verbatim>\<open>try: ... except
  Exception: h\<close> runs the handler on the state the body left behind.
\<close>

definition try_except ::
  "(exn + 'a) \<times> 's \<Rightarrow> ('s \<Rightarrow> (exn + 'a) \<times> 's) \<Rightarrow> (exn + 'a) \<times> 's" where
  "try_except body handler =
     (case body of
        (Inl e, s) \<Rightarrow> (if is_Exception e then handler s else (Inl e, s))
      | (Inr v, s) \<Rightarrow> (Inr v, s))"

section \<open>ml-models/anomaly\_detector.py\<close>

text \<open>
  The records handed to the detector are dictionaries of which only the keys
  \<^verbatim>\<open>temperature\<close> and \<^verbatim>\<open>humidity\<close> are read; every extension of
  \<open>sample\<close> is accepted. Python floats are modelled as reals.
\<close>

record sample =
  temperature :: real
  humidity :: real

text \<open>
  scikit-learn is not part of the repository. The fitted and unfitted estimator objects
  are values of the type parameters \<open>'m\<close> (IsolationForest) and \<open>'s\<close>
  (StandardScaler), and the library calls the detector makes are the fields of
  \<open>sklearn\<close>. \<open>sk_IsolationForest\<close> takes the contamination and the random state.
  Calls that fit return the estimator they leave behind.
\<close>

record ('m, 's) sklearn =
  sk_IsolationForest :: "real \<Rightarrow> nat \<Rightarrow> 'm"
  sk_StandardScaler :: "'s"
  sk_fit_transform :: "'s \<Rightarrow> real list list \<Rightarrow> (exn + real list list) \<times> 's"
  sk_transform :: "'s \<Rightarrow> real list list \<Rightarrow> exn + real list list"
  sk_fit :: "'m \<Rightarrow> real list list \<Rightarrow> (exn + unit) \<times> 'm"
  sk_predict :: "'m \<Rightarrow> real list list \<Rightarrow> exn + int list"

record ('m, 's) AnomalyDetector =
  model :: "'m"
  scaler :: "'s"
  is_trained :: bool

definition NORMAL :: int where
  "NORMAL = 0"

definition ANOMALOUS :: int where
  "ANOMALOUS = - 1"

definition AnomalyDetector_init :: "('m, 's) sklearn \<Rightarrow> ('m, 's) AnomalyDetector" where
  "AnomalyDetector_init L =
     \<lparr>model = sk_IsolationForest L 0.1 42, scaler = sk_StandardScaler L, is_trained = False\<rparr>"

fun extract_features :: "'a sample_scheme list \<Rightarrow> real list list" where
  "extract_features [] = []"
| "extract_features (record # data) =
     [temperature record,
      humidity record,
      (if humidity record > 0 then temperature record / humidity record else 0)]
     # extract_features data"

definition train ::
  "('m, 's) sklearn \<Rightarrow> ('m, 's) AnomalyDetector \<Rightarrow> 'a sample_scheme list
     \<Rightarrow> (exn + unit) \<times> ('m, 's) AnomalyDetector" where
  "train L self data =
     (let features = extract_features data in
      case sk_fit_transform L (scaler self) features of
        (Inl e, sc) \<Rightarrow> (Inl e, self\<lparr>scaler := sc\<rparr>)
      | (Inr scaled_features, sc) \<Rightarrow>
          (case sk_fit L (model self) scaled_features of
             (Inl e, m) \<Rightarrow> (Inl e, self\<lparr>scaler := sc, model := m\<rparr>)
           | (Inr _, m) \<Rightarrow> (Inr (), self\<lparr>scaler := sc, model := m, is_trained := True\<rparr>)))"

definition predict ::
  "('m, 's) sklearn \<Rightarrow> ('m, 's) AnomalyDetector \<Rightarrow> 'a sample_scheme list \<Rightarrow> exn + int list" where
  "predict L self data =
     (if \<not> is_trained self then Inr (replicate (length data) 0)
      else
        (let features = extract_features data in
         case sk_transform L (scaler self) features of
           Inl e \<Rightarrow> Inl e
         | Inr scaled_features \<Rightarrow>
             (case sk_predict L (model self) scaled_features of
                Inl e \<Rightarrow> Inl e
              | Inr predictions \<Rightarrow> Inr (map (\<lambda>p. if p = - 1 then - 1 else 0) predictions))))"

text \<open>
  A file holds either the pickle of a dictionary with the two entries
  \<^verbatim>\<open>'model'\<close> and \<^verbatim>\<open>'scaler'\<close>, or anything else, which
  \<^verbatim>\<open>pickle.load\<close> or the two key lookups reject. \<open>read_only\<close> are the
  paths that \<^verbatim>\<open>open(path, 'wb')\<close> refuses.
\<close>

datatype ('m, 's) file_content = Pickle 'm 's | Unreadable

record ('m, 's) filesystem =
  files :: "string \<rightharpoonup> ('m, 's) file_content"
  read_only :: "string \<Rightarrow> bool"

definition save_model ::
  "('m, 's) AnomalyDetector \<Rightarrow> string \<Rightarrow> ('m, 's) filesystem
     \<Rightarrow> (exn + unit) \<times> ('m, 's) filesystem" where
  "save_model self path fs =
     (if read_only fs path then (Inl OSError, fs)
      else (Inr (), fs\<lparr>files := (files fs)(path \<mapsto> Pickle (model self) (scaler self))\<rparr>))"

definition load_model ::
  "('m, 's) AnomalyDetector \<Rightarrow> string \<Rightarrow> ('m, 's) filesystem
     \<Rightarrow> (exn + unit) \<times> ('m, 's) AnomalyDetector" where
  "load_model self path fs =
     (case files fs path of
        None \<Rightarrow> (Inl FileNotFoundError, self)
      | Some Unreadable \<Rightarrow> (Inl UnpicklingError, self)
      | Some (Pickle m s) \<Rightarrow> (Inr (), self\<lparr>model := m, scaler := s, is_trained := True\<rparr>))"


text \<open>
  An instance of the library interface on which the theorems are exercised: the scaler
  is either unfitted or the identity, the model is either unfitted or flags every row
  whose first column exceeds a threshold.
\<close>

definition threshold_sklearn :: "(real option, bool) sklearn" where
  "threshold_sklearn =
     \<lparr>sk_IsolationForest = (\<lambda>contamination random_state. None),
      sk_StandardScaler = False,
      sk_fit_transform = (\<lambda>s X. if X = [] then (Inl ValueError, False) else (Inr X, True)),
      sk_transform = (\<lambda>s X. if s then Inr X else Inl NotFittedError),
      sk_fit = (\<lambda>m X. if X = [] then (Inl ValueError, None) else (Inr (), Some 50)),
      sk_predict = (\<lambda>m X. case m of None \<Rightarrow> Inl NotFittedError
                   | Some t \<Rightarrow> Inr (map (\<lambda>row. if hd row > t then - 1 else 1) X))\<rparr>"

definition fitted_detector :: "(real option, bool) AnomalyDetector" where
  "fitted_detector = \<lparr>model = Some 50, scaler = True, is_trained = True\<rparr>"

definition empty_disk :: "(real option, bool) filesystem" where
  "empty_disk = \<lparr>files = Map.empty, read_only = (\<lambda>p. False)\<rparr>"

section \<open>The backends shared by the pipeline scripts\<close>

text \<open>
  The readings the pipelines pass around are the detector's samples with the further
  keys of the dictionary; \<^verbatim>\<open>final_working_pipeline.py\<close> adds a severity.
  Timestamps are abstract.
\<close>

record reading = sample +
  sensor_id :: string
  timestamp :: nat
  actual_anomaly :: bool

record graded_reading = reading +
  severity :: string

datatype tier = bronze | silver | gold

text \<open>
  PostgreSQL, the local disk and MinIO are outside the repository. Each request a
  pipeline sends to one of them is an \<open>io_op\<close>; the environment decides, for every
  request, whether it raises. The \<open>trace\<close> of a pipeline lists the requests it has
  sent so far, in order, each with whether it went through.
\<close>

datatype 'r io_op =
    CONNECT
  | CREATE_TABLE string
  | DELETE_older_than_2_hours string
  | INSERT_sensor_readings 'r int
  | INSERT_anomaly_alerts 'r
  | INSERT_pipeline_metrics string real "string option"
  | COMMIT
  | makedirs string
  | write_json tier 'r int
  | list_buckets
  | put_object tier 'r int

fun error_of :: "'r io_op \<Rightarrow> exn" where
  "error_of (makedirs _) = OSError"
| "error_of (write_json _ _ _) = OSError"
| "error_of list_buckets = ClientError"
| "error_of (put_object _ _ _) = ClientError"
| "error_of _ = DatabaseError"

record 'r io =
  trace :: "('r io_op \<times> bool) list"

definition perform ::
  "('r io_op \<Rightarrow> bool) \<Rightarrow> 'r io_op \<Rightarrow> ('r, 'z) io_scheme \<Rightarrow> (exn + unit) \<times> ('r, 'z) io_scheme" where
  "perform raises op self =
     (if raises op then (Inl (error_of op), self\<lparr>trace := trace self @ [(op, False)]\<rparr>)
      else (Inr (), self\<lparr>trace := trace self @ [(op, True)]\<rparr>))"

text \<open>Sequencing of two statements: the second runs only if the first did not raise.\<close>

definition seq ::
  "(exn + 'a) \<times> 's \<Rightarrow> ('a \<Rightarrow> 's \<Rightarrow> (exn + 'b) \<times> 's) \<Rightarrow> (exn + 'b) \<times> 's" where
  "seq first rest = (case first of (Inl e, s) \<Rightarrow> (Inl e, s) | (Inr v, s) \<Rightarrow> rest v s)"

text \<open>What a list of requests shows: the requests sent, the tiers written, the alerts stored,
  the readings handed to the relational store with their classification.\<close>

definition attempted :: "('r io_op \<times> bool) list \<Rightarrow> 'r io_op list" where
  "attempted tr = map fst tr"

fun tier_written :: "'r io_op \<times> bool \<Rightarrow> tier list" where
  "tier_written (write_json t r p, True) = [t]"
| "tier_written _ = []"

definition tiers_written :: "('r io_op \<times> bool) list \<Rightarrow> tier list" where
  "tiers_written tr = concat (map tier_written tr)"

fun alert_produced :: "'r io_op \<times> bool \<Rightarrow> 'r list" where
  "alert_produced (INSERT_anomaly_alerts r, True) = [r]"
| "alert_produced _ = []"

definition alerts_produced :: "('r io_op \<times> bool) list \<Rightarrow> 'r list" where
  "alerts_produced tr = concat (map alert_produced tr)"

fun dispatched_reading :: "'r io_op \<times> bool \<Rightarrow> ('r \<times> int) list" where
  "dispatched_reading (INSERT_sensor_readings r p, ok) = [(r, p)]"
| "dispatched_reading _ = []"

definition dispatched :: "('r io_op \<times> bool) list \<Rightarrow> ('r \<times> int) list" where
  "dispatched tr = concat (map dispatched_reading tr)"

definition new_events :: "('r, 'y) io_scheme \<Rightarrow> ('r, 'z) io_scheme \<Rightarrow> ('r io_op \<times> bool) list" where
  "new_events before after = drop (length (trace before)) (trace after)"

text \<open>
  The random source and the clock are inputs: the three \<^verbatim>\<open>random.random()\<close>
  draws behind one generated reading, the time, and the requests that raise while the
  reading is dispatched.
\<close>

record 'r env =
  rand_anomaly :: real
  rand_temperature :: real
  rand_humidity :: real
  now :: nat
  faults :: "'r io_op \<Rightarrow> bool"

definition uniform :: "real \<Rightarrow> real \<Rightarrow> real \<Rightarrow> real" where
  "uniform a b u = a + (b - a) * u"

text \<open>\<^verbatim>\<open>round(x, 2)\<close>: to the nearest hundredth, ties to the even neighbour.\<close>

definition round2 :: "real \<Rightarrow> real" where
  "round2 x =
     (let y = x * 100; f = \<lfloor>y\<rfloor>; d = y - of_int f in
      of_int (if d < 1 / 2 then f else if 1 / 2 < d then f + 1
              else if even f then f else f + 1) / 100)"

record ('r, 'm, 's) pipeline = "'r io" +
  disk :: "('m, 's) filesystem"
  detector :: "('m, 's) AnomalyDetector"
  sensors :: "string list"

record ('r, 'm, 's) counting_pipeline = "('r, 'm, 's) pipeline" +
  total_readings :: nat
  anomalies_detected :: nat

section \<open>final\_working\_pipeline.py\<close>

record ('m, 's) FinalWorkingPipeline = "(graded_reading, 'm, 's) counting_pipeline" +
  files_created :: nat

text \<open>
  What \<^verbatim>\<open>__init__\<close> is given from outside: the 1000 random records that
  \<^verbatim>\<open>train_model\<close> generates, and the startup requests that raise. The method
  \<^verbatim>\<open>load_model\<close> of the pipeline class is \<open>pipeline_load_model\<close> here, the
  detector's method has the name already.
\<close>

record 'r startup =
  training_data :: "reading list"
  startup_raises :: "'r io_op \<Rightarrow> bool"

definition train_model ::
  "('m, 's) sklearn \<Rightarrow> reading list \<Rightarrow> ('m, 's) FinalWorkingPipeline
     \<Rightarrow> (exn + unit) \<times> ('m, 's) FinalWorkingPipeline" where
  "train_model L training self =
     (case train L (detector self) training of
        (Inl e, d) \<Rightarrow> (Inl e, self\<lparr>detector := d\<rparr>)
      | (Inr _, d) \<Rightarrow>
          (case save_model d ''ml-models/anomaly_model.pkl'' (disk self) of
             (Inl e, fs) \<Rightarrow> (Inl e, self\<lparr>detector := d, disk := fs\<rparr>)
           | (Inr _, fs) \<Rightarrow> (Inr (), self\<lparr>detector := d, disk := fs\<rparr>)))"

definition pipeline_load_model ::
  "('m, 's) sklearn \<Rightarrow> reading list \<Rightarrow> ('m, 's) FinalWorkingPipeline
     \<Rightarrow> (exn + unit) \<times> ('m, 's) FinalWorkingPipeline" where
  "pipeline_load_model L training self =
     try_except
       (case load_model (detector self) ''ml-models/anomaly_model.pkl'' (disk self) of
          (r, d) \<Rightarrow> (r, self\<lparr>detector := d\<rparr>))
       (\<lambda>self. train_model L training self)"

definition setup_database ::
  "(graded_reading io_op \<Rightarrow> bool) \<Rightarrow> ('m, 's) FinalWorkingPipeline
     \<Rightarrow> (exn + unit) \<times> ('m, 's) FinalWorkingPipeline" where
  "setup_database raises self =
     try_except
       (seq (perform raises CONNECT self) (\<lambda>_ self.
        seq (perform raises (CREATE_TABLE ''sensor_readings'') self) (\<lambda>_ self.
        seq (perform raises (CREATE_TABLE ''anomaly_alerts'') self) (\<lambda>_ self.
        seq (perform raises (DELETE_older_than_2_hours ''sensor_readings'') self) (\<lambda>_ self.
        seq (perform raises (DELETE_older_than_2_hours ''anomaly_alerts'') self) (\<lambda>_ self.
        perform raises COMMIT self))))))
       (\<lambda>self. (Inl (SystemExit 1), self))"

definition setup_file_storage ::
  "(graded_reading io_op \<Rightarrow> bool) \<Rightarrow> ('m, 's) FinalWorkingPipeline
     \<Rightarrow> (exn + unit) \<times> ('m, 's) FinalWorkingPipeline" where
  "setup_file_storage raises self =
     seq (perform raises (makedirs ''minio_data/bronze/raw_data'') self) (\<lambda>_ self.
     seq (perform raises (makedirs ''minio_data/silver/processed_data'') self) (\<lambda>_ self.
     perform raises (makedirs ''minio_data/gold/anomalies'') self))"

text \<open>The object when \<^verbatim>\<open>__init__\<close> has created the detector and nothing else; the
  other attributes are assigned before they are read.\<close>

definition FinalWorkingPipeline_new ::
  "('m, 's) sklearn \<Rightarrow> ('m, 's) filesystem \<Rightarrow> ('m, 's) FinalWorkingPipeline" where
  "FinalWorkingPipeline_new L disk0 =
     \<lparr>trace = [], disk = disk0, detector = AnomalyDetector_init L, sensors = [],
      total_readings = 0, anomalies_detected = 0, files_created = 0\<rparr>"

definition FinalWorkingPipeline_init ::
  "('m, 's) sklearn \<Rightarrow> graded_reading startup \<Rightarrow> ('m, 's) filesystem
     \<Rightarrow> (exn + unit) \<times> ('m, 's) FinalWorkingPipeline" where
  "FinalWorkingPipeline_init L S disk0 =
     (let self = FinalWorkingPipeline_new L disk0 in
      seq (pipeline_load_model L (training_data S) self) (\<lambda>_ self.
      seq (Inr (), self\<lparr>sensors :=
             [''sensor_001'', ''sensor_002'', ''sensor_003'', ''sensor_004'', ''sensor_005'']\<rparr>)
        (\<lambda>_ self.
      seq (setup_database (startup_raises S) self) (\<lambda>_ self.
      seq (setup_file_storage (startup_raises S) self) (\<lambda>_ self.
      (Inr (), self\<lparr>total_readings := 0, anomalies_detected := 0, files_created := 0\<rparr>))))))"

definition generate_sensor_reading :: "graded_reading env \<Rightarrow> string \<Rightarrow> graded_reading" where
  "generate_sensor_reading E sensor =
     (let is_anomaly = rand_anomaly E < 0.25;
          temp = (if is_anomaly then uniform 80 120 (rand_temperature E)
                  else uniform 18 28 (rand_temperature E));
          hum = (if is_anomaly then uniform 0 20 (rand_humidity E)
                 else uniform 40 70 (rand_humidity E));
          sev = (if is_anomaly then (if temp > 100 then ''HIGH'' else ''MEDIUM'') else ''LOW'')
      in \<lparr>temperature = round2 temp, humidity = round2 hum, sensor_id = sensor,
          timestamp = now E, actual_anomaly = is_anomaly, severity = sev\<rparr>)"

definition save_to_database ::
  "(graded_reading io_op \<Rightarrow> bool) \<Rightarrow> graded_reading \<Rightarrow> int \<Rightarrow> ('m, 's) FinalWorkingPipeline
     \<Rightarrow> (exn + bool) \<times> ('m, 's) FinalWorkingPipeline" where
  "save_to_database raises reading prediction self =
     try_except
       (seq (perform raises (INSERT_sensor_readings reading prediction) self) (\<lambda>_ self.
        seq (if prediction = - 1 then perform raises (INSERT_anomaly_alerts reading) self
             else (Inr (), self)) (\<lambda>_ self.
        seq (perform raises COMMIT self) (\<lambda>_ self.
        (Inr True, self)))))
       (\<lambda>self. (Inr False, self))"

definition save_to_files ::
  "(graded_reading io_op \<Rightarrow> bool) \<Rightarrow> graded_reading \<Rightarrow> int \<Rightarrow> ('m, 's) FinalWorkingPipeline
     \<Rightarrow> (exn + bool) \<times> ('m, 's) FinalWorkingPipeline" where
  "save_to_files raises reading prediction self =
     try_except
       (seq (perform raises (write_json bronze reading prediction) self) (\<lambda>_ self.
        seq (if prediction = - 1 then perform raises (write_json gold reading prediction) self
             else perform raises (write_json silver reading prediction) self) (\<lambda>_ self.
        (Inr True, self\<lparr>files_created := files_created self + 1\<rparr>))))
       (\<lambda>self. (Inr False, self))"

text \<open>The statements of \<^verbatim>\<open>run_pipeline\<close>'s inner loop that follow the prediction.\<close>

definition dispatch ::
  "(graded_reading io_op \<Rightarrow> bool) \<Rightarrow> graded_reading \<Rightarrow> int \<Rightarrow> ('m, 's) FinalWorkingPipeline
     \<Rightarrow> (exn + unit) \<times> ('m, 's) FinalWorkingPipeline" where
  "dispatch raises reading prediction self =
     seq (save_to_database raises reading prediction self) (\<lambda>_ self.
     seq (save_to_files raises reading prediction self) (\<lambda>_ self.
     (let self = self\<lparr>total_readings := total_readings self + 1\<rparr> in
      if prediction = - 1
      then (Inr (), self\<lparr>anomalies_detected := anomalies_detected self + 1\<rparr>)
      else (Inr (), self))))"

text \<open>One pass of the body of \<^verbatim>\<open>for sensor_id in self.sensors\<close>.\<close>

definition for_sensor ::
  "('m, 's) sklearn \<Rightarrow> graded_reading env \<Rightarrow> string \<Rightarrow> ('m, 's) FinalWorkingPipeline
     \<Rightarrow> (exn + unit) \<times> ('m, 's) FinalWorkingPipeline" where
  "for_sensor L E sensor self =
     (let reading = generate_sensor_reading E sensor in
      case predict L (detector self) [reading] of
        Inl e \<Rightarrow> (Inl e, self)
      | Inr [] \<Rightarrow> (Inl IndexError, self)
      | Inr (prediction # _) \<Rightarrow> dispatch (faults E) reading prediction self)"

fun for_sensors ::
  "('m, 's) sklearn \<Rightarrow> (nat \<Rightarrow> graded_reading env) \<Rightarrow> nat \<Rightarrow> string list
     \<Rightarrow> ('m, 's) FinalWorkingPipeline \<Rightarrow> (exn + unit) \<times> ('m, 's) FinalWorkingPipeline" where
  "for_sensors L E j [] self = (Inr (), self)"
| "for_sensors L E j (sensor # rest) self =
     seq (for_sensor L (E j) sensor self) (\<lambda>_ self. for_sensors L E (Suc j) rest self)"

text \<open>
  \<^verbatim>\<open>run_pipeline\<close> loops forever; \<open>run_pipeline L E n\<close> is the state after
  \<open>n\<close> passes of the body of \<^verbatim>\<open>while True\<close>, or the exception that ended the
  run before. \<open>E k j\<close> is the environment of the reading at position \<open>j\<close> of batch
  \<open>k + 1\<close>. The local \<^verbatim>\<open>batch_count\<close> is paired with the object.
\<close>

fun while_True ::
  "('m, 's) sklearn \<Rightarrow> (nat \<Rightarrow> nat \<Rightarrow> graded_reading env) \<Rightarrow> nat
     \<Rightarrow> nat \<times> ('m, 's) FinalWorkingPipeline
     \<Rightarrow> (exn + unit) \<times> (nat \<times> ('m, 's) FinalWorkingPipeline)" where
  "while_True L E 0 st = (Inr (), st)"
| "while_True L E (Suc n) (batch_count, self) =
     (case for_sensors L (E batch_count) 0 (sensors self) self of
        (Inl e, self') \<Rightarrow> (Inl e, (batch_count + 1, self'))
      | (Inr _, self') \<Rightarrow> while_True L E n (batch_count + 1, self'))"

definition run_pipeline ::
  "('m, 's) sklearn \<Rightarrow> (nat \<Rightarrow> nat \<Rightarrow> graded_reading env) \<Rightarrow> nat
     \<Rightarrow> ('m, 's) FinalWorkingPipeline
     \<Rightarrow> (exn + unit) \<times> (nat \<times> ('m, 's) FinalWorkingPipeline)" where
  "run_pipeline L E n self = while_True L E n (0, self)"

text \<open>The script: construct the pipeline, then run it.\<close>

definition main ::
  "('m, 's) sklearn \<Rightarrow> graded_reading startup \<Rightarrow> ('m, 's) filesystem
     \<Rightarrow> (nat \<Rightarrow> nat \<Rightarrow> graded_reading env) \<Rightarrow> nat
     \<Rightarrow> (exn + unit) \<times> (nat \<times> ('m, 's) FinalWorkingPipeline)" where
  "main L S disk0 E n =
     (case FinalWorkingPipeline_init L S disk0 of
        (Inl e, self) \<Rightarrow> (Inl e, (0, self))
      | (Inr _, self) \<Rightarrow> run_pipeline L E n self)"

text \<open>The requests sent while one reading is dispatched.\<close>

definition dispatch_events ::
  "(graded_reading io_op \<Rightarrow> bool) \<Rightarrow> graded_reading \<Rightarrow> int \<Rightarrow> ('m, 's) FinalWorkingPipeline
     \<Rightarrow> (graded_reading io_op \<times> bool) list" where
  "dispatch_events raises reading prediction self =
     new_events self (snd (dispatch raises reading prediction self))"

text \<open>A pipeline as \<^verbatim>\<open>__init__\<close> leaves it, and a reading of the anomalous range.\<close>

definition started_pipeline :: "(real option, bool) FinalWorkingPipeline" where
  "started_pipeline =
     \<lparr>trace = [], disk = empty_disk, detector = fitted_detector,
      sensors = [''sensor_001'', ''sensor_002'', ''sensor_003'', ''sensor_004'', ''sensor_005''],
      total_readings = 0, anomalies_detected = 0, files_created = 0\<rparr>"

definition hot_reading :: graded_reading where
  "hot_reading =
     \<lparr>temperature = 95, humidity = 8, sensor_id = ''sensor_001'', timestamp = 0,
      actual_anomaly = True, severity = ''MEDIUM''\<rparr>"

text \<open>The requests each of the two sinks sends for one reading, written out.\<close>

definition db_events ::
  "(graded_reading io_op \<Rightarrow> bool) \<Rightarrow> graded_reading \<Rightarrow> int
     \<Rightarrow> (graded_reading io_op \<times> bool) list" where
  "db_events raises r p =
     (if raises (INSERT_sensor_readings r p) then [(INSERT_sensor_readings r p, False)]
      else (INSERT_sensor_readings r p, True) #
        (if p = - 1 then
           (if raises (INSERT_anomaly_alerts r) then [(INSERT_anomaly_alerts r, False)]
            else [(INSERT_anomaly_alerts r, True), (COMMIT, \<not> raises COMMIT)])
         else [(COMMIT, \<not> raises COMMIT)]))"

definition file_events ::
  "(graded_reading io_op \<Rightarrow> bool) \<Rightarrow> graded_reading \<Rightarrow> int
     \<Rightarrow> (graded_reading io_op \<times> bool) list" where
  "file_events raises r p =
     (if raises (write_json bronze r p) then [(write_json bronze r p, False)]
      else [(write_json bronze r p, True),
            (write_json (if p = - 1 then gold else silver) r p,
             \<not> raises (write_json (if p = - 1 then gold else silver) r p))])"

text \<open>A pair of a reading and the label that predict gives it on its own.\<close>

definition classified_by ::
  "('m, 's) sklearn \<Rightarrow> ('m, 's) AnomalyDetector \<Rightarrow> graded_reading \<times> int \<Rightarrow> bool" where
  "classified_by L d c =
     (case predict L d [fst c] of Inr (p # _) \<Rightarrow> p = snd c | _ \<Rightarrow> False)"

definition anomalous_count :: "('r \<times> int) list \<Rightarrow> nat" where
  "anomalous_count cs = length (filter (\<lambda>c. snd c = ANOMALOUS) cs)"

text \<open>Environments: no request raises; only the bronze file of the hot reading cannot be
  written; and a run in which the first sensor of every batch draws an anomaly.\<close>

definition no_faults :: "'r io_op \<Rightarrow> bool" where
  "no_faults op = False"

definition bronze_write_fails :: "graded_reading io_op \<Rightarrow> bool" where
  "bronze_write_fails op = (op = write_json bronze hot_reading ANOMALOUS)"

definition steady_env :: "nat \<Rightarrow> nat \<Rightarrow> graded_reading env" where
  "steady_env k j =
     \<lparr>rand_anomaly = (if j = 0 then 1 / 10 else 9 / 10), rand_temperature = 3 / 8,
      rand_humidity = 1 / 2, now = 12 * k, faults = no_faults\<rparr>"

section \<open>dashboard/resilient\_pipeline.py\<close>







definition mild_reading :: reading where
  "mild_reading =
     \<lparr>temperature = 22, humidity = 55, sensor_id = ''sensor_001'', timestamp = 0,
      actual_anomaly = False\<rparr>"


section \<open>dashboard/working\_pipeline.py\<close>

text \<open>\<open>conn\<close> and \<open>s3_client\<close> say that the attribute holds a client and is not
  \<^verbatim>\<open>None\<close>.\<close>

record ('m, 's) WorkingPipeline = "(reading, 'm, 's) pipeline" +
  conn :: bool
  s3_client :: bool

definition working_train_model ::
  "('m, 's) sklearn \<Rightarrow> reading list \<Rightarrow> ('m, 's) WorkingPipeline
     \<Rightarrow> (exn + unit) \<times> ('m, 's) WorkingPipeline" where
  "working_train_model L training self =
     (case train L (detector self) training of
        (Inl e, d) \<Rightarrow> (Inl e, self\<lparr>detector := d\<rparr>)
      | (Inr _, d) \<Rightarrow>
          (case save_model d ''../ml-models/anomaly_model.pkl'' (disk self) of
             (Inl e, fs) \<Rightarrow> (Inl e, self\<lparr>detector := d, disk := fs\<rparr>)
           | (Inr _, fs) \<Rightarrow> (Inr (), self\<lparr>detector := d, disk := fs\<rparr>)))"

text \<open>The handler of this variant is a bare \<^verbatim>\<open>except:\<close>, which catches everything.\<close>

definition working_load_model ::
  "('m, 's) sklearn \<Rightarrow> reading list \<Rightarrow> ('m, 's) WorkingPipeline
     \<Rightarrow> (exn + unit) \<times> ('m, 's) WorkingPipeline" where
  "working_load_model L training self =
     (case load_model (detector self) ''../ml-models/anomaly_model.pkl'' (disk self) of
        (Inl e, d) \<Rightarrow> working_train_model L training (self\<lparr>detector := d\<rparr>)
      | (Inr _, d) \<Rightarrow> (Inr (), self\<lparr>detector := d\<rparr>))"

definition working_setup_database ::
  "(reading io_op \<Rightarrow> bool) \<Rightarrow> ('m, 's) WorkingPipeline
     \<Rightarrow> (exn + unit) \<times> ('m, 's) WorkingPipeline" where
  "working_setup_database raises self =
     try_except
       (seq (perform raises CONNECT self) (\<lambda>_ self.
        seq (Inr (), self\<lparr>conn := True\<rparr>) (\<lambda>_ self.
        seq (perform raises (CREATE_TABLE ''sensor_readings'') self) (\<lambda>_ self.
        seq (perform raises (CREATE_TABLE ''anomaly_alerts'') self) (\<lambda>_ self.
        perform raises COMMIT self)))))
       (\<lambda>self. (Inr (), self\<lparr>conn := False\<rparr>))"

definition setup_minio ::
  "(reading io_op \<Rightarrow> bool) \<Rightarrow> ('m, 's) WorkingPipeline
     \<Rightarrow> (exn + unit) \<times> ('m, 's) WorkingPipeline" where
  "setup_minio raises self =
     try_except
       (perform raises list_buckets (self\<lparr>s3_client := True\<rparr>))
       (\<lambda>self. (Inr (), self\<lparr>s3_client := False\<rparr>))"

definition WorkingPipeline_new ::
  "('m, 's) sklearn \<Rightarrow> ('m, 's) filesystem \<Rightarrow> ('m, 's) WorkingPipeline" where
  "WorkingPipeline_new L disk0 =
     \<lparr>trace = [], disk = disk0, detector = AnomalyDetector_init L, sensors = [],
      conn = False, s3_client = False\<rparr>"

definition WorkingPipeline_init ::
  "('m, 's) sklearn \<Rightarrow> reading startup \<Rightarrow> ('m, 's) filesystem
     \<Rightarrow> (exn + unit) \<times> ('m, 's) WorkingPipeline" where
  "WorkingPipeline_init L S disk0 =
     (let self = WorkingPipeline_new L disk0 in
      seq (working_load_model L (training_data S) self) (\<lambda>_ self.
      seq (Inr (), self\<lparr>sensors :=
             [''sensor_001'', ''sensor_002'', ''sensor_003'', ''sensor_004'', ''sensor_005'']\<rparr>)
        (\<lambda>_ self.
      seq (working_setup_database (startup_raises S) self) (\<lambda>_ self.
      setup_minio (startup_raises S) self))))"

definition working_generate_sensor_reading :: "reading env \<Rightarrow> string \<Rightarrow> reading" where
  "working_generate_sensor_reading E sensor =
     (let is_anomaly = rand_anomaly E < 0.15;
          temp = (if is_anomaly then uniform 80 120 (rand_temperature E)
                  else uniform 18 28 (rand_temperature E));
          hum = (if is_anomaly then uniform 0 20 (rand_humidity E)
                 else uniform 40 70 (rand_humidity E))
      in \<lparr>temperature = round2 temp, humidity = round2 hum, sensor_id = sensor,
          timestamp = now E, actual_anomaly = is_anomaly\<rparr>)"

definition save_to_minio ::
  "(reading io_op \<Rightarrow> bool) \<Rightarrow> reading \<Rightarrow> int \<Rightarrow> ('m, 's) WorkingPipeline
     \<Rightarrow> (exn + unit) \<times> ('m, 's) WorkingPipeline" where
  "save_to_minio raises reading prediction self =
     (if \<not> s3_client self then (Inr (), self)
      else
        try_except
          (seq (perform raises (put_object bronze reading prediction) self) (\<lambda>_ self.
           if prediction = - 1 then perform raises (put_object gold reading prediction) self
           else perform raises (put_object silver reading prediction) self))
          (\<lambda>self. (Inr (), self)))"

definition working_save_to_database ::
  "(reading io_op \<Rightarrow> bool) \<Rightarrow> reading \<Rightarrow> int \<Rightarrow> ('m, 's) WorkingPipeline
     \<Rightarrow> (exn + unit) \<times> ('m, 's) WorkingPipeline" where
  "working_save_to_database raises reading prediction self =
     (if \<not> conn self then (Inr (), self)
      else
        try_except
          (seq (perform raises (INSERT_sensor_readings reading prediction) self) (\<lambda>_ self.
           seq (if prediction = - 1 then perform raises (INSERT_anomaly_alerts reading) self
                else (Inr (), self)) (\<lambda>_ self.
           perform raises COMMIT self)))
          (\<lambda>self. (Inr (), self)))"

text \<open>The locals \<^verbatim>\<open>reading_count\<close> and \<^verbatim>\<open>anomaly_count\<close> of
  \<^verbatim>\<open>run_pipeline\<close> are carried next to the object.\<close>

definition working_for_sensor ::
  "('m, 's) sklearn \<Rightarrow> reading env \<Rightarrow> string \<Rightarrow> nat \<times> nat \<times> ('m, 's) WorkingPipeline
     \<Rightarrow> (exn + unit) \<times> (nat \<times> nat \<times> ('m, 's) WorkingPipeline)" where
  "working_for_sensor L E sensor st =
     (case st of (reading_count, anomaly_count, self) \<Rightarrow>
      let reading = working_generate_sensor_reading E sensor in
      case predict L (detector self) [reading] of
        Inl e \<Rightarrow> (Inl e, st)
      | Inr [] \<Rightarrow> (Inl IndexError, st)
      | Inr (prediction # _) \<Rightarrow>
          (case save_to_minio (faults E) reading prediction self of
             (Inl e, self) \<Rightarrow> (Inl e, (reading_count, anomaly_count, self))
           | (Inr _, self) \<Rightarrow>
               (case working_save_to_database (faults E) reading prediction self of
                  (Inl e, self) \<Rightarrow> (Inl e, (reading_count, anomaly_count, self))
                | (Inr _, self) \<Rightarrow>
                    (Inr (), (reading_count + 1,
                              (if prediction = - 1 then anomaly_count + 1 else anomaly_count),
                              self)))))"

fun working_for_sensors ::
  "('m, 's) sklearn \<Rightarrow> (nat \<Rightarrow> reading env) \<Rightarrow> nat \<Rightarrow> string list
     \<Rightarrow> nat \<times> nat \<times> ('m, 's) WorkingPipeline
     \<Rightarrow> (exn + unit) \<times> (nat \<times> nat \<times> ('m, 's) WorkingPipeline)" where
  "working_for_sensors L E j [] st = (Inr (), st)"
| "working_for_sensors L E j (sensor # rest) st =
     seq (working_for_sensor L (E j) sensor st) (\<lambda>_ st. working_for_sensors L E (Suc j) rest st)"

fun working_while_True ::
  "('m, 's) sklearn \<Rightarrow> (nat \<Rightarrow> nat \<Rightarrow> reading env) \<Rightarrow> nat \<Rightarrow> nat
     \<Rightarrow> nat \<times> nat \<times> ('m, 's) WorkingPipeline
     \<Rightarrow> (exn + unit) \<times> (nat \<times> nat \<times> ('m, 's) WorkingPipeline)" where
  "working_while_True L E k 0 st = (Inr (), st)"
| "working_while_True L E k (Suc n) st =
     (case working_for_sensors L (E k) 0 (sensors (snd (snd st))) st of
        (Inl e, st') \<Rightarrow> (Inl e, st')
      | (Inr _, st') \<Rightarrow> working_while_True L E (Suc k) n st')"

definition working_run_pipeline ::
  "('m, 's) sklearn \<Rightarrow> (nat \<Rightarrow> nat \<Rightarrow> reading env) \<Rightarrow> nat \<Rightarrow> ('m, 's) WorkingPipeline
     \<Rightarrow> (exn + unit) \<times> (nat \<times> nat \<times> ('m, 's) WorkingPipeline)" where
  "working_run_pipeline L E n self = working_while_True L E 0 n (0, 0, self)"

definition working_main ::
  "('m, 's) sklearn \<Rightarrow> reading startup \<Rightarrow> ('m, 's) filesystem
     \<Rightarrow> (nat \<Rightarrow> nat \<Rightarrow> reading env) \<Rightarrow> nat
     \<Rightarrow> (exn + unit) \<times> (nat \<times> nat \<times> ('m, 's) WorkingPipeline)" where
  "working_main L S disk0 E n =
     (case WorkingPipeline_init L S disk0 of
        (Inl e, self) \<Rightarrow> (Inl e, (0, 0, self))
      | (Inr _, self) \<Rightarrow> working_run_pipeline L E n self)"

text \<open>A startup at which PostgreSQL refuses the connection, a disk that holds a saved
  model at either path, and a run without faults.\<close>

definition database_down :: "'r startup" where
  "database_down = \<lparr>training_data = [], startup_raises = (\<lambda>op. op = CONNECT)\<rparr>"

definition disk_with_model :: "(real option, bool) filesystem" where
  "disk_with_model =
     \<lparr>files = [''ml-models/anomaly_model.pkl'' \<mapsto> Pickle (Some 50) True,
               ''../ml-models/anomaly_model.pkl'' \<mapsto> Pickle (Some 50) True],
      read_only = (\<lambda>p. False)\<rparr>"

definition quiet_env :: "nat \<Rightarrow> nat \<Rightarrow> reading env" where
  "quiet_env k j =
     \<lparr>rand_anomaly = 9 / 10, rand_temperature = 3 / 8, rand_humidity = 1 / 2, now = 10 * k,
      faults = no_faults\<rparr>"

text \<open>The object that \<^verbatim>\<open>WorkingPipeline()\<close> returns in that case.\<close>

definition degraded_pipeline :: "(real option, bool) WorkingPipeline" where
  "degraded_pipeline =
     \<lparr>trace = [(CONNECT, False), (list_buckets, True)], disk = disk_with_model,
      detector = fitted_detector,
      sensors = [''sensor_001'', ''sensor_002'', ''sensor_003'', ''sensor_004'', ''sensor_005''],
      conn = False, s3_client = True\<rparr>"


section \<open>Properties of the detector\<close>

lemma length_extract_features: "length (extract_features data) = length data"
  by (induction data) simp_all

text \<open>
  train has no check of its own on its input: it raises exactly what one of the two
  library fits raises, leaving is_trained as it was, and sets is_trained when both return.
\<close>

lemma train_raises_iff:
  "fst (train L self data) = Inl e \<longleftrightarrow>
     fst (sk_fit_transform L (scaler self) (extract_features data)) = Inl e \<or>
     (\<exists>scaled. fst (sk_fit_transform L (scaler self) (extract_features data)) = Inr scaled \<and>
        fst (sk_fit L (model self) scaled) = Inl e)"
  by (auto simp: train_def Let_def split: prod.splits sum.splits)

lemma train_is_trained:
  "is_trained (snd (train L self data)) \<longleftrightarrow>
     is_trained self \<or> (\<exists>u. fst (train L self data) = Inr u)"
  by (auto simp: train_def Let_def split: prod.splits sum.splits)

text \<open>
  C4. On a detector that is not trained, predict returns, for every input sequence of
  any length (the empty one included), a sequence of the same length whose every element
  is NORMAL; it returns a value, it does not raise.
\<close>

theorem predict_untrained_all_normal:
  "\<not> is_trained self \<Longrightarrow> predict L self data = Inr (replicate (length data) NORMAL)"
  by (simp add: predict_def NORMAL_def)

theorem predict_untrained_all_normal_witness:
  "\<not> is_trained (AnomalyDetector_init threshold_sklearn) \<and>
   predict threshold_sklearn (AnomalyDetector_init threshold_sklearn)
     [\<lparr>temperature = 95, humidity = 8\<rparr>, \<lparr>temperature = 22, humidity = 55\<rparr>]
   = Inr [NORMAL, NORMAL]"
  using predict_untrained_all_normal
    [of "AnomalyDetector_init threshold_sklearn" threshold_sklearn
        "[\<lparr>temperature = 95, humidity = 8\<rparr>, \<lparr>temperature = 22, humidity = 55\<rparr>]"]
  by (simp add: AnomalyDetector_init_def)




text \<open>
  C3. For a trained detector, a save that succeeds followed by a load of the same path
  restores a detector whose predict agrees with the saved one on every input sequence.
  The random seed is part of the pickled model object.
\<close>

theorem save_load_round_trip:
  assumes "is_trained self"
    and "save_model self path fs = (Inr (), fs')"
  shows "\<exists>loaded. load_model other path fs' = (Inr (), loaded) \<and>
           predict L loaded X = predict L self X"
proof -
  from assms(2) have fs': "files fs' path = Some (Pickle (model self) (scaler self))"
    by (auto simp: save_model_def split: if_splits)
  have "other\<lparr>model := model self, scaler := scaler self, is_trained := True\<rparr> = self"
    using assms(1) by (intro AnomalyDetector.equality) simp_all
  with fs' show ?thesis
    by (simp add: load_model_def)
qed

theorem save_load_round_trip_witness:
  "is_trained fitted_detector \<and>
   save_model fitted_detector ''ml-models/anomaly_model.pkl'' empty_disk
     = (Inr (), empty_disk\<lparr>files := [''ml-models/anomaly_model.pkl'' \<mapsto> Pickle (Some 50) True]\<rparr>) \<and>
   load_model (AnomalyDetector_init threshold_sklearn) ''ml-models/anomaly_model.pkl''
     (empty_disk\<lparr>files := [''ml-models/anomaly_model.pkl'' \<mapsto> Pickle (Some 50) True]\<rparr>)
     = (Inr (), fitted_detector) \<and>
   predict threshold_sklearn fitted_detector
     [\<lparr>temperature = 95, humidity = 8\<rparr>, \<lparr>temperature = 22, humidity = 55\<rparr>]
     = Inr [ANOMALOUS, NORMAL]"
proof -
  have t: "is_trained fitted_detector"
    by (simp add: fitted_detector_def)
  have s: "save_model fitted_detector ''ml-models/anomaly_model.pkl'' empty_disk
     = (Inr (), empty_disk\<lparr>files := [''ml-models/anomaly_model.pkl'' \<mapsto> Pickle (Some 50) True]\<rparr>)"
    by (simp add: save_model_def fitted_detector_def empty_disk_def)
  have p: "predict threshold_sklearn fitted_detector
     [\<lparr>temperature = 95, humidity = 8\<rparr>, \<lparr>temperature = 22, humidity = 55\<rparr>]
     = Inr [ANOMALOUS, NORMAL]"
    by (simp add: predict_def fitted_detector_def threshold_sklearn_def ANOMALOUS_def NORMAL_def)
  have l: "load_model (AnomalyDetector_init threshold_sklearn) ''ml-models/anomaly_model.pkl''
     (empty_disk\<lparr>files := [''ml-models/anomaly_model.pkl'' \<mapsto> Pickle (Some 50) True]\<rparr>)
     = (Inr (), fitted_detector)"
    by (simp add: load_model_def fitted_detector_def empty_disk_def AnomalyDetector_init_def)
  from save_load_round_trip [OF t s, of "AnomalyDetector_init threshold_sklearn" threshold_sklearn
      "[\<lparr>temperature = 95, humidity = 8\<rparr>, \<lparr>temperature = 22, humidity = 55\<rparr>]"] t s p l
  show ?thesis by simp
qed

lemma load_model_Inr_trained:
  "load_model other path fs = (Inr (), loaded) \<Longrightarrow> is_trained loaded"
  by (auto simp: load_model_def split: option.splits file_content.splits)

lemma save_model_ignores_flag:
  "save_model (self\<lparr>is_trained := b\<rparr>) path fs = save_model self path fs"
  by (simp add: save_model_def)

lemma save_model_writes_pickle:
  "save_model self path fs = (Inr (), fs') \<Longrightarrow>
   files fs' path = Some (Pickle (model self) (scaler self))"
  by (auto simp: save_model_def split: if_splits)

text \<open>
  C10. Every load that returns leaves is_trained true. save writes the same file
  whatever the flag is, so the flag is not persisted; and loading what any detector,
  trained or not, has saved gives a detector that reports trained, carries the saved
  model and scaler, and whose predict is the result of the library's transform and
  predict on them, not the all-NORMAL default.
\<close>

theorem load_model_always_trained:
  "(load_model other path fs = (Inr (), loaded) \<longrightarrow> is_trained loaded) \<and>
   save_model (self\<lparr>is_trained := b\<rparr>) path fs = save_model self path fs \<and>
   (save_model self path fs = (Inr (), fs') \<longrightarrow>
      (\<exists>restored. load_model other path fs' = (Inr (), restored) \<and>
         is_trained restored \<and> model restored = model self \<and> scaler restored = scaler self \<and>
         predict L restored X =
           (case sk_transform L (scaler self) (extract_features X) of
              Inl e \<Rightarrow> Inl e
            | Inr scaled_features \<Rightarrow>
                (case sk_predict L (model self) scaled_features of
                   Inl e \<Rightarrow> Inl e
                 | Inr predictions \<Rightarrow> Inr (map (\<lambda>p. if p = - 1 then - 1 else 0) predictions)))))"
proof (intro conjI impI)
  assume "load_model other path fs = (Inr (), loaded)"
  then show "is_trained loaded" by (rule load_model_Inr_trained)
next
  show "save_model (self\<lparr>is_trained := b\<rparr>) path fs = save_model self path fs"
    by (rule save_model_ignores_flag)
next
  assume "save_model self path fs = (Inr (), fs')"
  then have "files fs' path = Some (Pickle (model self) (scaler self))"
    by (rule save_model_writes_pickle)
  then have "load_model other path fs' =
      (Inr (), other\<lparr>model := model self, scaler := scaler self, is_trained := True\<rparr>)"
    by (simp add: load_model_def)
  then show "\<exists>restored. load_model other path fs' = (Inr (), restored) \<and>
         is_trained restored \<and> model restored = model self \<and> scaler restored = scaler self \<and>
         predict L restored X =
           (case sk_transform L (scaler self) (extract_features X) of
              Inl e \<Rightarrow> Inl e
            | Inr scaled_features \<Rightarrow>
                (case sk_predict L (model self) scaled_features of
                   Inl e \<Rightarrow> Inl e
                 | Inr predictions \<Rightarrow> Inr (map (\<lambda>p. if p = - 1 then - 1 else 0) predictions)))"
    by (simp add: predict_def split: sum.splits)
qed

theorem load_model_always_trained_witness:
  "predict threshold_sklearn (AnomalyDetector_init threshold_sklearn)
     [\<lparr>temperature = 95, humidity = 8\<rparr>] = Inr [NORMAL] \<and>
   save_model (AnomalyDetector_init threshold_sklearn) ''ml-models/anomaly_model.pkl'' empty_disk
     = (Inr (), empty_disk\<lparr>files := [''ml-models/anomaly_model.pkl'' \<mapsto> Pickle None False]\<rparr>) \<and>
   (\<exists>restored.
      load_model (AnomalyDetector_init threshold_sklearn) ''ml-models/anomaly_model.pkl''
        (empty_disk\<lparr>files := [''ml-models/anomaly_model.pkl'' \<mapsto> Pickle None False]\<rparr>)
        = (Inr (), restored) \<and>
      is_trained restored \<and>
      predict threshold_sklearn restored [\<lparr>temperature = 95, humidity = 8\<rparr>] = Inl NotFittedError)"
proof -
  have p: "predict threshold_sklearn (AnomalyDetector_init threshold_sklearn)
     [\<lparr>temperature = 95, humidity = 8\<rparr>] = Inr [NORMAL]"
    by (simp add: predict_def AnomalyDetector_init_def NORMAL_def)
  have s: "save_model (AnomalyDetector_init threshold_sklearn) ''ml-models/anomaly_model.pkl'' empty_disk
     = (Inr (), empty_disk\<lparr>files := [''ml-models/anomaly_model.pkl'' \<mapsto> Pickle None False]\<rparr>)"
    by (simp add: save_model_def AnomalyDetector_init_def threshold_sklearn_def empty_disk_def)
  have c: "(case sk_transform threshold_sklearn (scaler (AnomalyDetector_init threshold_sklearn))
               (extract_features [\<lparr>temperature = 95, humidity = 8\<rparr>]) of
              Inl e \<Rightarrow> Inl e
            | Inr scaled_features \<Rightarrow>
                (case sk_predict threshold_sklearn (model (AnomalyDetector_init threshold_sklearn))
                        scaled_features of
                   Inl e \<Rightarrow> Inl e
                 | Inr predictions \<Rightarrow> Inr (map (\<lambda>p. if p = - 1 then - 1 else 0) predictions)))
           = Inl NotFittedError"
    by (simp add: AnomalyDetector_init_def threshold_sklearn_def)
  note inst = load_model_always_trained
    [where other = "AnomalyDetector_init threshold_sklearn"
       and self = "AnomalyDetector_init threshold_sklearn"
       and path = "''ml-models/anomaly_model.pkl''" and fs = empty_disk
       and fs' = "empty_disk\<lparr>files := [''ml-models/anomaly_model.pkl'' \<mapsto> Pickle None False]\<rparr>"
       and L = threshold_sklearn and X = "[\<lparr>temperature = 95, humidity = 8\<rparr>]"]
  from inst s obtain restored where
    "load_model (AnomalyDetector_init threshold_sklearn) ''ml-models/anomaly_model.pkl''
        (empty_disk\<lparr>files := [''ml-models/anomaly_model.pkl'' \<mapsto> Pickle None False]\<rparr>)
        = (Inr (), restored)"
    "is_trained restored"
    "predict threshold_sklearn restored [\<lparr>temperature = 95, humidity = 8\<rparr>] = Inl NotFittedError"
    unfolding c by blast
  with p s show ?thesis by blast
qed

section \<open>Properties of final\_working\_pipeline.py\<close>

lemma tier_written_write_json: "tier_written (write_json t r p, b) = (if b then [t] else [])"
  by (cases b) simp_all

lemma alert_produced_INSERT: "alert_produced (INSERT_anomaly_alerts r, b) = (if b then [r] else [])"
  by (cases b) simp_all

lemma dispatched_append: "dispatched (a @ b) = dispatched a @ dispatched b"
  by (simp add: dispatched_def)

lemma tiers_written_append: "tiers_written (a @ b) = tiers_written a @ tiers_written b"
  by (simp add: tiers_written_def)

lemma alerts_produced_append: "alerts_produced (a @ b) = alerts_produced a @ alerts_produced b"
  by (simp add: alerts_produced_def)

lemma save_to_database_effect:
  "save_to_database raises r p s =
     (Inr (\<not> raises (INSERT_sensor_readings r p) \<and> \<not> (p = - 1 \<and> raises (INSERT_anomaly_alerts r))
            \<and> \<not> raises COMMIT),
      s\<lparr>trace := trace s @
          (if raises (INSERT_sensor_readings r p) then [(INSERT_sensor_readings r p, False)]
           else (INSERT_sensor_readings r p, True) #
             (if p = - 1 then
                (if raises (INSERT_anomaly_alerts r) then [(INSERT_anomaly_alerts r, False)]
                 else [(INSERT_anomaly_alerts r, True), (COMMIT, \<not> raises COMMIT)])
              else [(COMMIT, \<not> raises COMMIT)]))\<rparr>)"
  by (simp add: save_to_database_def try_except_def seq_def perform_def)

lemma save_to_files_effect:
  "save_to_files raises r p s =
     (let t = (if p = - 1 then gold else silver);
          ok = (\<not> raises (write_json bronze r p) \<and> \<not> raises (write_json t r p)) in
      (Inr ok,
       s\<lparr>trace := trace s @
           (if raises (write_json bronze r p) then [(write_json bronze r p, False)]
            else [(write_json bronze r p, True), (write_json t r p, \<not> raises (write_json t r p))]),
         files_created := files_created s + (if ok then 1 else 0)\<rparr>))"
  by (simp add: save_to_files_def try_except_def seq_def perform_def Let_def)




lemma dispatch_effect:
  "dispatch raises r p s = (res, s') \<Longrightarrow>
     res = Inr () \<and> trace s' = trace s @ db_events raises r p @ file_events raises r p \<and>
     total_readings s' = total_readings s + 1 \<and>
     anomalies_detected s' = anomalies_detected s + (if p = - 1 then 1 else 0) \<and>
     sensors s' = sensors s \<and> detector s' = detector s"
  by (auto simp: dispatch_def save_to_database_effect save_to_files_effect seq_def Let_def
        db_events_def file_events_def split: if_splits)

lemma dispatch_events_eq:
  "dispatch_events raises r p s = db_events raises r p @ file_events raises r p"
  using dispatch_effect [of raises r p s "fst (dispatch raises r p s)" "snd (dispatch raises r p s)"]
  by (simp add: dispatch_events_def new_events_def)

lemma tiers_written_db_events: "tiers_written (db_events raises r p) = []"
  by (simp add: tiers_written_def db_events_def)

lemma alerts_produced_file_events: "alerts_produced (file_events raises r p) = []"
  by (simp add: alerts_produced_def file_events_def)

lemma dispatched_db_events: "dispatched (db_events raises r p) = [(r, p)]"
  by (simp add: dispatched_def db_events_def)

lemma dispatched_file_events: "dispatched (file_events raises r p) = []"
  by (simp add: dispatched_def file_events_def)

text \<open>
  C1, as the specification states it, fails. When the bronze file of an ANOMALOUS reading
  cannot be written, no tier receives a write (the gold write is not attempted), while
  the relational store still stores the alert.
\<close>

theorem dispatch_tier_routing_counterexample:
  "tiers_written (dispatch_events bronze_write_fails
      hot_reading ANOMALOUS started_pipeline) = [] \<and>
   alerts_produced (dispatch_events bronze_write_fails
      hot_reading ANOMALOUS started_pipeline) = [hot_reading]"
  by (simp add: bronze_write_fails_def hot_reading_def dispatch_events_eq db_events_def file_events_def tiers_written_def
        alerts_produced_def ANOMALOUS_def)

text \<open>
  C1, amended. For every dispatched reading the bronze write is attempted; silver and
  gold are never both written; gold is written only for an ANOMALOUS reading, silver
  only for another one, and an alert is stored only for an ANOMALOUS reading. When no
  request raises, the tiers written are bronze and then gold for ANOMALOUS, bronze and
  then silver otherwise, and an alert for the reading is stored exactly in the first case.
\<close>

theorem dispatch_tier_routing:
  "write_json bronze reading prediction \<in> set (attempted (dispatch_events raises reading prediction self)) \<and>
   \<not> (silver \<in> set (tiers_written (dispatch_events raises reading prediction self)) \<and>
      gold \<in> set (tiers_written (dispatch_events raises reading prediction self))) \<and>
   (gold \<in> set (tiers_written (dispatch_events raises reading prediction self))
      \<longrightarrow> prediction = ANOMALOUS) \<and>
   (silver \<in> set (tiers_written (dispatch_events raises reading prediction self))
      \<longrightarrow> prediction \<noteq> ANOMALOUS) \<and>
   (alerts_produced (dispatch_events raises reading prediction self) \<noteq> []
      \<longrightarrow> prediction = ANOMALOUS) \<and>
   ((\<forall>op. \<not> raises op) \<longrightarrow>
      tiers_written (dispatch_events raises reading prediction self)
        = [bronze, if prediction = ANOMALOUS then gold else silver] \<and>
      alerts_produced (dispatch_events raises reading prediction self)
        = (if prediction = ANOMALOUS then [reading] else []))"
proof -
  have t: "tiers_written (dispatch_events raises reading prediction self)
           = tiers_written (file_events raises reading prediction)"
    by (simp add: dispatch_events_eq tiers_written_append tiers_written_db_events)
  have a: "alerts_produced (dispatch_events raises reading prediction self)
           = alerts_produced (db_events raises reading prediction)"
    by (simp add: dispatch_events_eq alerts_produced_append alerts_produced_file_events)
  have 1: "write_json bronze reading prediction
             \<in> set (attempted (dispatch_events raises reading prediction self))"
    by (simp add: dispatch_events_eq attempted_def file_events_def)
  have 2: "set (tiers_written (file_events raises reading prediction))
             \<subseteq> {bronze, if prediction = ANOMALOUS then gold else silver}"
    by (auto simp: file_events_def tiers_written_def ANOMALOUS_def tier_written_write_json)
  have 3: "alerts_produced (db_events raises reading prediction) \<noteq> [] \<longrightarrow> prediction = ANOMALOUS"
    by (simp add: db_events_def alerts_produced_def ANOMALOUS_def alert_produced_INSERT)
  have 4: "(\<forall>op. \<not> raises op) \<longrightarrow>
      tiers_written (file_events raises reading prediction)
        = [bronze, if prediction = ANOMALOUS then gold else silver] \<and>
      alerts_produced (db_events raises reading prediction)
        = (if prediction = ANOMALOUS then [reading] else [])"
    by (simp add: file_events_def db_events_def tiers_written_def alerts_produced_def ANOMALOUS_def)
  from 2 have 5: "\<not> (silver \<in> set (tiers_written (file_events raises reading prediction)) \<and>
      gold \<in> set (tiers_written (file_events raises reading prediction)))"
    by (auto split: if_splits)
  from 2 have 6: "gold \<in> set (tiers_written (file_events raises reading prediction))
      \<longrightarrow> prediction = ANOMALOUS"
    by (auto split: if_splits)
  from 2 have 7: "silver \<in> set (tiers_written (file_events raises reading prediction))
      \<longrightarrow> prediction \<noteq> ANOMALOUS"
    by (auto split: if_splits)
  from 1 3 4 5 6 7 show ?thesis
    unfolding t a by blast
qed

theorem dispatch_tier_routing_witness:
  "(\<forall>op::graded_reading io_op. \<not> no_faults op) \<and>
   tiers_written (dispatch_events no_faults hot_reading ANOMALOUS started_pipeline) = [bronze, gold] \<and>
   alerts_produced (dispatch_events no_faults hot_reading ANOMALOUS started_pipeline) = [hot_reading] \<and>
   tiers_written (dispatch_events no_faults hot_reading NORMAL started_pipeline) = [bronze, silver] \<and>
   alerts_produced (dispatch_events no_faults hot_reading NORMAL started_pipeline) = []"
  using dispatch_tier_routing [of hot_reading ANOMALOUS no_faults started_pipeline]
    dispatch_tier_routing [of hot_reading NORMAL no_faults started_pipeline]
  by (simp add: ANOMALOUS_def NORMAL_def no_faults_def)



lemma anomalous_count_append: "anomalous_count (a @ b) = anomalous_count a + anomalous_count b"
  by (simp add: anomalous_count_def)

lemma for_sensor_effect:
  assumes "for_sensor L E sensor s = (Inr u, s')"
  shows "\<exists>ev. trace s' = trace s @ ev \<and> length (dispatched ev) = 1 \<and>
           list_all (classified_by L (detector s)) (dispatched ev) \<and>
           total_readings s' = total_readings s + 1 \<and>
           anomalies_detected s' = anomalies_detected s + anomalous_count (dispatched ev) \<and>
           sensors s' = sensors s \<and> detector s' = detector s"
proof -
  from assms obtain p ps where
    p: "predict L (detector s) [generate_sensor_reading E sensor] = Inr (p # ps)" and
    d: "dispatch (faults E) (generate_sensor_reading E sensor) p s = (Inr u, s')"
    by (auto simp: for_sensor_def Let_def split: sum.splits list.splits)
  let ?ev = "db_events (faults E) (generate_sensor_reading E sensor) p
             @ file_events (faults E) (generate_sensor_reading E sensor) p"
  from dispatch_effect [OF d]
  have "trace s' = trace s @ ?ev" "total_readings s' = total_readings s + 1"
    "anomalies_detected s' = anomalies_detected s + (if p = - 1 then 1 else 0)"
    "sensors s' = sensors s" "detector s' = detector s"
    by simp_all
  moreover have "dispatched ?ev = [(generate_sensor_reading E sensor, p)]"
    by (simp add: dispatched_append dispatched_db_events dispatched_file_events)
  ultimately show ?thesis
    using p by (intro exI [of _ ?ev]) (simp add: anomalous_count_def ANOMALOUS_def classified_by_def)
qed

lemma for_sensors_effect:
  "for_sensors L E j ss s = (Inr u, s') \<Longrightarrow>
     \<exists>ev. trace s' = trace s @ ev \<and> length (dispatched ev) = length ss \<and>
          list_all (classified_by L (detector s)) (dispatched ev) \<and>
          total_readings s' = total_readings s + length ss \<and>
          anomalies_detected s' = anomalies_detected s + anomalous_count (dispatched ev) \<and>
          sensors s' = sensors s \<and> detector s' = detector s"
proof (induction ss arbitrary: j s)
  case Nil
  then show ?case by (simp add: anomalous_count_def dispatched_def)
next
  case (Cons sensor rest)
  from Cons.prems obtain v s1 where
    first: "for_sensor L (E j) sensor s = (Inr v, s1)" and
    rest: "for_sensors L E (Suc j) rest s1 = (Inr u, s')"
    by (auto simp: seq_def split: prod.splits sum.splits)
  from for_sensor_effect [OF first] obtain ev1 where
    1: "trace s1 = trace s @ ev1" "length (dispatched ev1) = 1"
       "list_all (classified_by L (detector s)) (dispatched ev1)"
       "total_readings s1 = total_readings s + 1"
       "anomalies_detected s1 = anomalies_detected s + anomalous_count (dispatched ev1)"
       "sensors s1 = sensors s" "detector s1 = detector s"
    by blast
  from Cons.IH [OF rest] obtain ev2 where
    2: "trace s' = trace s1 @ ev2" "length (dispatched ev2) = length rest"
       "list_all (classified_by L (detector s1)) (dispatched ev2)"
       "total_readings s' = total_readings s1 + length rest"
       "anomalies_detected s' = anomalies_detected s1 + anomalous_count (dispatched ev2)"
       "sensors s' = sensors s1" "detector s' = detector s1"
    by blast
  from 1 2 show ?case
    by (intro exI [of _ "ev1 @ ev2"]) (simp add: dispatched_append anomalous_count_append)
qed

lemma while_True_effect:
  "while_True L E n (b, s) = (Inr u, (b', s')) \<Longrightarrow>
     b' = b + n \<and>
     (\<exists>ev. trace s' = trace s @ ev \<and> length (dispatched ev) = n * length (sensors s) \<and>
          list_all (classified_by L (detector s)) (dispatched ev) \<and>
          total_readings s' = total_readings s + n * length (sensors s) \<and>
          anomalies_detected s' = anomalies_detected s + anomalous_count (dispatched ev) \<and>
          sensors s' = sensors s \<and> detector s' = detector s)"
proof (induction n arbitrary: b s)
  case 0
  then show ?case by (simp add: anomalous_count_def dispatched_def)
next
  case (Suc n)
  from Suc.prems obtain v s1 where
    batch: "for_sensors L (E b) 0 (sensors s) s = (Inr v, s1)" and
    rest: "while_True L E n (b + 1, s1) = (Inr u, (b', s'))"
    by (auto split: prod.splits sum.splits)
  from for_sensors_effect [OF batch] obtain ev1 where
    1: "trace s1 = trace s @ ev1" "length (dispatched ev1) = length (sensors s)"
       "list_all (classified_by L (detector s)) (dispatched ev1)"
       "total_readings s1 = total_readings s + length (sensors s)"
       "anomalies_detected s1 = anomalies_detected s + anomalous_count (dispatched ev1)"
       "sensors s1 = sensors s" "detector s1 = detector s"
    by blast
  from Suc.IH [OF rest] obtain ev2 where
    2: "b' = b + 1 + n" "trace s' = trace s1 @ ev2"
       "length (dispatched ev2) = n * length (sensors s1)"
       "list_all (classified_by L (detector s1)) (dispatched ev2)"
       "total_readings s' = total_readings s1 + n * length (sensors s1)"
       "anomalies_detected s' = anomalies_detected s1 + anomalous_count (dispatched ev2)"
       "sensors s' = sensors s1" "detector s' = detector s1"
    by blast
  from 1 2 show ?case
    by (intro conjI exI [of _ "ev1 @ ev2"]) (simp_all add: dispatched_append anomalous_count_append)
qed

lemma trace_new_events: "trace s' = trace s @ ev \<Longrightarrow> new_events s s' = ev"
  by (simp add: new_events_def)

text \<open>
  C2. If N passes of the loop complete from a state with S sensors, then N times S
  readings have been dispatched, each with the label predict gives it, total_readings
  has grown by N times S, and anomalies_detected has grown by the number of dispatched
  readings classified ANOMALOUS.
\<close>

theorem run_pipeline_counts:
  assumes "run_pipeline L E n self = (Inr (), (batch_count, self'))"
  shows "batch_count = n \<and>
         length (dispatched (new_events self self')) = n * length (sensors self) \<and>
         list_all (classified_by L (detector self)) (dispatched (new_events self self')) \<and>
         total_readings self' = total_readings self + n * length (sensors self) \<and>
         anomalies_detected self' =
           anomalies_detected self + anomalous_count (dispatched (new_events self self'))"
proof -
  from assms have "while_True L E n (0, self) = (Inr (), (batch_count, self'))"
    by (simp add: run_pipeline_def)
  from while_True_effect [OF this] obtain ev where
    "batch_count = n" "trace self' = trace self @ ev"
    "length (dispatched ev) = n * length (sensors self)"
    "list_all (classified_by L (detector self)) (dispatched ev)"
    "total_readings self' = total_readings self + n * length (sensors self)"
    "anomalies_detected self' = anomalies_detected self + anomalous_count (dispatched ev)"
    by auto
  then show ?thesis
    by (simp add: trace_new_events)
qed

lemma for_sensors_completes:
  "(\<And>r::graded_reading. \<exists>p ps. predict L (detector s) [r] = Inr (p # ps)) \<Longrightarrow>
   \<exists>s'. for_sensors L E j ss s = (Inr (), s') \<and> detector s' = detector s \<and> sensors s' = sensors s"
proof (induction ss arbitrary: j s)
  case Nil
  then show ?case by simp
next
  case (Cons sensor rest)
  from Cons.prems obtain p ps where
    p: "predict L (detector s) [generate_sensor_reading (E j) sensor] = Inr (p # ps)"
    by blast
  obtain res s1 where d: "dispatch (faults (E j)) (generate_sensor_reading (E j) sensor) p s = (res, s1)"
    by (cases "dispatch (faults (E j)) (generate_sensor_reading (E j) sensor) p s")
  from dispatch_effect [OF d] have e: "res = Inr ()" "detector s1 = detector s" "sensors s1 = sensors s"
    by simp_all
  from p d e have first: "for_sensor L (E j) sensor s = (Inr (), s1)"
    by (simp add: for_sensor_def Let_def)
  from Cons.prems e have "\<And>r::graded_reading. \<exists>p ps. predict L (detector s1) [r] = Inr (p # ps)"
    by simp
  from Cons.IH [OF this] obtain s' where
    "for_sensors L E (Suc j) rest s1 = (Inr (), s')" "detector s' = detector s1" "sensors s' = sensors s1"
    by blast
  with first e show ?case
    by (simp add: seq_def)
qed

lemma run_pipeline_completes:
  assumes "\<And>r::graded_reading. \<exists>p ps. predict L (detector self) [r] = Inr (p # ps)"
  shows "\<exists>self'. run_pipeline L E n self = (Inr (), (n, self'))"
proof -
  have "(\<And>r::graded_reading. \<exists>p ps. predict L (detector s) [r] = Inr (p # ps)) \<Longrightarrow>
        \<exists>s'. while_True L E n (b, s) = (Inr (), (b + n, s'))" for b s
  proof (induction n arbitrary: b s)
    case 0
    then show ?case by simp
  next
    case (Suc n)
    from for_sensors_completes [of L s "E b" 0 "sensors s"] Suc.prems obtain s1 where
      1: "for_sensors L (E b) 0 (sensors s) s = (Inr (), s1)" "detector s1 = detector s"
      by blast
    with Suc.prems have "\<And>r::graded_reading. \<exists>p ps. predict L (detector s1) [r] = Inr (p # ps)"
      by simp
    from Suc.IH [OF this, of "b + 1"] 1 show ?case
      by simp
  qed
  from this [of self 0] assms show ?thesis
    by (simp add: run_pipeline_def)
qed


lemma generate_first_sensor: "generate_sensor_reading (steady_env k 0) sensor =
   \<lparr>temperature = 95, humidity = 10, sensor_id = sensor, timestamp = 12 * k,
    actual_anomaly = True, severity = ''MEDIUM''\<rparr>"
  by (simp add: generate_sensor_reading_def steady_env_def uniform_def round2_def Let_def)

lemma generate_later_sensor: "generate_sensor_reading (steady_env k (Suc j)) sensor =
   \<lparr>temperature = 87 / 4, humidity = 55, sensor_id = sensor, timestamp = 12 * k,
    actual_anomaly = False, severity = ''LOW''\<rparr>"
  by (simp add: generate_sensor_reading_def steady_env_def uniform_def round2_def Let_def)

theorem run_pipeline_counts_witness:
  "fst (run_pipeline threshold_sklearn steady_env 2 started_pipeline) = Inr () \<and>
   fst (snd (run_pipeline threshold_sklearn steady_env 2 started_pipeline)) = 2 \<and>
   total_readings (snd (snd (run_pipeline threshold_sklearn steady_env 2 started_pipeline))) = 10 \<and>
   anomalies_detected (snd (snd (run_pipeline threshold_sklearn steady_env 2 started_pipeline))) = 2 \<and>
   anomalous_count (dispatched (new_events started_pipeline
     (snd (snd (run_pipeline threshold_sklearn steady_env 2 started_pipeline))))) = 2"
proof -
  have ev: "fst (run_pipeline threshold_sklearn steady_env 2 started_pipeline) = Inr () \<and>
      anomalies_detected (snd (snd (run_pipeline threshold_sklearn steady_env 2 started_pipeline))) = 2"
    by (simp add: run_pipeline_def started_pipeline_def for_sensor_def generate_first_sensor generate_later_sensor numeral_2_eq_2
         predict_def fitted_detector_def threshold_sklearn_def dispatch_def
         save_to_database_effect save_to_files_effect seq_def Let_def)
  then have "run_pipeline threshold_sklearn steady_env 2 started_pipeline =
      (Inr (), (fst (snd (run_pipeline threshold_sklearn steady_env 2 started_pipeline)),
                snd (snd (run_pipeline threshold_sklearn steady_env 2 started_pipeline))))"
    by (metis prod.collapse)
  from run_pipeline_counts [OF this] ev show ?thesis
    by (simp add: started_pipeline_def)
qed

section \<open>Properties of dashboard/resilient\_pipeline.py\<close>













section \<open>Startup without the relational store\<close>


lemma seq_Inl: "fst first = Inl e \<Longrightarrow> seq first rest = (Inl e, snd first)"
  by (cases first) (simp add: seq_def)

lemma trace_train_model: "trace (snd (train_model L t s)) = trace s"
  by (simp add: train_model_def split: prod.splits sum.splits)

lemma trace_pipeline_load_model: "trace (snd (pipeline_load_model L t s)) = trace s"
  by (simp add: pipeline_load_model_def try_except_def trace_train_model split: prod.splits sum.splits)

lemma setup_database_unreachable:
  "raises CONNECT \<Longrightarrow>
   setup_database raises s = (Inl (SystemExit 1), s\<lparr>trace := trace s @ [(CONNECT, False)]\<rparr>)"
  by (simp add: setup_database_def try_except_def seq_def perform_def)

lemma FinalWorkingPipeline_init_unreachable:
  assumes "startup_raises S CONNECT"
  shows "\<exists>e self. FinalWorkingPipeline_init L S disk0 = (Inl e, self) \<and>
           dispatched (trace self) = [] \<and>
           (fst (pipeline_load_model L (training_data S) (FinalWorkingPipeline_new L disk0)) = Inr ()
              \<longrightarrow> e = SystemExit 1)"
proof -
  obtain r s1 where
    lm: "pipeline_load_model L (training_data S) (FinalWorkingPipeline_new L disk0) = (r, s1)"
    by (cases "pipeline_load_model L (training_data S) (FinalWorkingPipeline_new L disk0)")
  have "trace (snd (pipeline_load_model L (training_data S) (FinalWorkingPipeline_new L disk0))) = []"
    by (simp add: trace_pipeline_load_model FinalWorkingPipeline_new_def)
  with lm have t: "trace s1 = []" by simp
  show ?thesis
  proof (cases r)
    case (Inl e)
    with lm t show ?thesis
      by (simp add: FinalWorkingPipeline_init_def Let_def seq_def dispatched_def)
  next
    case (Inr u)
    with lm t assms show ?thesis
      by (simp add: FinalWorkingPipeline_init_def Let_def seq_def setup_database_unreachable
            dispatched_def)
  qed
qed

lemma working_setup_database_unreachable:
  "raises CONNECT \<Longrightarrow>
   working_setup_database raises s =
     (Inr (), s\<lparr>trace := trace s @ [(CONNECT, False)], conn := False\<rparr>)"
  by (simp add: working_setup_database_def try_except_def seq_def perform_def)

lemma setup_minio_conn:
  "\<exists>u. fst (setup_minio raises s) = Inr u" "conn (snd (setup_minio raises s)) = conn s"
  by (simp_all add: setup_minio_def try_except_def perform_def)

lemma WorkingPipeline_init_unreachable:
  assumes "startup_raises S CONNECT" and "WorkingPipeline_init L S disk0 = (Inr (), w)"
  shows "\<not> conn w"
proof -
  obtain r s1 where
    lm: "working_load_model L (training_data S) (WorkingPipeline_new L disk0) = (r, s1)"
    by (cases "working_load_model L (training_data S) (WorkingPipeline_new L disk0)")
  show ?thesis
  proof (cases r)
    case (Inl e)
    with lm assms(2) show ?thesis
      by (simp add: WorkingPipeline_init_def Let_def seq_def)
  next
    case (Inr u)
    define s2 where "s2 = s1\<lparr>sensors :=
        [''sensor_001'', ''sensor_002'', ''sensor_003'', ''sensor_004'', ''sensor_005''],
        trace := trace s1 @ [(CONNECT, False)], conn := False\<rparr>"
    from Inr lm assms have "setup_minio (startup_raises S) s2 = (Inr (), w)"
      by (simp add: WorkingPipeline_init_def Let_def seq_def working_setup_database_unreachable
            s2_def)
    then have "w = snd (setup_minio (startup_raises S) s2)"
      by simp
    then show ?thesis
      by (simp add: setup_minio_conn s2_def)
  qed
qed

lemma save_to_minio_state:
  "\<exists>u. fst (save_to_minio raises r p s) = Inr u"
  "conn (snd (save_to_minio raises r p s)) = conn s"
  "sensors (snd (save_to_minio raises r p s)) = sensors s"
  "dispatched (trace (snd (save_to_minio raises r p s))) = dispatched (trace s)"
  by (simp_all add: save_to_minio_def try_except_def seq_def perform_def dispatched_def)

lemma working_save_to_database_skipped:
  "\<not> conn s \<Longrightarrow> working_save_to_database raises r p s = (Inr (), s)"
  by (simp add: working_save_to_database_def)

lemma working_for_sensor_skips:
  assumes "\<not> conn s" and "working_for_sensor L E sensor (rc, ac, s) = (res, (rc', ac', s'))"
  shows "\<not> conn s' \<and> sensors s' = sensors s \<and> dispatched (trace s') = dispatched (trace s)"
proof (cases "predict L (detector s) [working_generate_sensor_reading E sensor]")
  case (Inl e)
  with assms show ?thesis
    by (simp add: working_for_sensor_def Let_def)
next
  case (Inr ps)
  show ?thesis
  proof (cases ps)
    case Nil
    with Inr assms show ?thesis
      by (simp add: working_for_sensor_def Let_def)
  next
    case (Cons p rest)
    let ?r = "working_generate_sensor_reading E sensor"
    obtain u where u: "fst (save_to_minio (faults E) ?r p s) = Inr u"
      using save_to_minio_state(1) by blast
    define s1 where "s1 = snd (save_to_minio (faults E) ?r p s)"
    from u have m: "save_to_minio (faults E) ?r p s = (Inr u, s1)"
      by (simp add: s1_def prod_eq_iff)
    from assms(1) have c1: "\<not> conn s1"
      by (simp add: s1_def save_to_minio_state)
    from Inr Cons m c1 assms(2) have "s' = s1"
      by (simp add: working_for_sensor_def Let_def working_save_to_database_skipped)
    with c1 show ?thesis
      by (simp add: s1_def save_to_minio_state)
  qed
qed

lemma working_for_sensors_skips:
  "\<not> conn s \<Longrightarrow> working_for_sensors L E j ss (rc, ac, s) = (res, (rc', ac', s')) \<Longrightarrow>
   \<not> conn s' \<and> sensors s' = sensors s \<and> dispatched (trace s') = dispatched (trace s)"
proof (induction ss arbitrary: j rc ac s)
  case Nil
  then show ?case by simp
next
  case (Cons sensor rest)
  obtain r1 rc1 ac1 s1 where first: "working_for_sensor L (E j) sensor (rc, ac, s) = (r1, (rc1, ac1, s1))"
    by (metis prod_cases3)
  from working_for_sensor_skips [OF Cons.prems(1) first]
  have 1: "\<not> conn s1" "sensors s1 = sensors s" "dispatched (trace s1) = dispatched (trace s)"
    by simp_all
  show ?case
  proof (cases r1)
    case (Inl e)
    with first Cons.prems(2) have "s' = s1" by (simp add: seq_def)
    with 1 show ?thesis by simp
  next
    case (Inr u)
    with first Cons.prems(2) have "working_for_sensors L E (Suc j) rest (rc1, ac1, s1) = (res, (rc', ac', s'))"
      by (simp add: seq_def)
    from Cons.IH [OF 1(1) this] 1 show ?thesis by simp
  qed
qed

lemma working_while_True_skips:
  "\<not> conn s \<Longrightarrow> working_while_True L E k n (rc, ac, s) = (res, (rc', ac', s')) \<Longrightarrow>
   \<not> conn s' \<and> dispatched (trace s') = dispatched (trace s)"
proof (induction n arbitrary: k rc ac s)
  case 0
  then show ?case by simp
next
  case (Suc n)
  obtain r1 rc1 ac1 s1 where
    batch: "working_for_sensors L (E k) 0 (sensors s) (rc, ac, s) = (r1, (rc1, ac1, s1))"
    by (metis prod_cases3)
  from working_for_sensors_skips [OF Suc.prems(1) batch]
  have 1: "\<not> conn s1" "dispatched (trace s1) = dispatched (trace s)"
    by simp_all
  show ?case
  proof (cases r1)
    case (Inl e)
    with batch Suc.prems(2) have "s' = s1" by simp
    with 1 show ?thesis by simp
  next
    case (Inr u)
    with batch Suc.prems(2) have "working_while_True L E (Suc k) n (rc1, ac1, s1) = (res, (rc', ac', s'))"
      by simp
    from Suc.IH [OF 1(1) this] 1 show ?thesis by simp
  qed
qed

lemma working_run_pipeline_skips:
  assumes "\<not> conn w"
  shows "dispatched (trace (snd (snd (snd (working_run_pipeline L E n w))))) = dispatched (trace w)"
proof -
  obtain res rc ac s' where "working_while_True L E 0 n (0, 0, w) = (res, (rc, ac, s'))"
    by (metis prod_cases3)
  from working_while_True_skips [OF assms this] this show ?thesis
    by (simp add: working_run_pipeline_def)
qed

text \<open>
  C9, amended. In final_working_pipeline.py, if PostgreSQL cannot be reached at startup,
  the script ends with an exception before the loop is entered and without having
  dispatched a reading; the exception is SystemExit(1) whenever loading the model went
  through. In dashboard/working_pipeline.py the constructor returns with conn unset, the
  loop is entered, and every write to the relational store is skipped without a request.
\<close>

theorem database_unreachable_at_startup:
  "(startup_raises S CONNECT \<longrightarrow>
      (\<exists>e self. main L S dsk E n = (Inl e, (0, self)) \<and> dispatched (trace self) = [] \<and>
         (fst (pipeline_load_model L (training_data S) (FinalWorkingPipeline_new L dsk)) = Inr ()
            \<longrightarrow> e = SystemExit 1))) \<and>
   (startup_raises S' CONNECT \<and> WorkingPipeline_init L' S' dsk' = (Inr (), w) \<longrightarrow>
      \<not> conn w \<and>
      working_main L' S' dsk' E' n = working_run_pipeline L' E' n w \<and>
      working_save_to_database raises reading prediction w = (Inr (), w) \<and>
      dispatched (trace (snd (snd (snd (working_run_pipeline L' E' n w))))) = dispatched (trace w))"
proof (intro conjI impI)
  assume "startup_raises S CONNECT"
  from FinalWorkingPipeline_init_unreachable [OF this, of L dsk]
  show "\<exists>e self. main L S dsk E n = (Inl e, (0, self)) \<and> dispatched (trace self) = [] \<and>
         (fst (pipeline_load_model L (training_data S) (FinalWorkingPipeline_new L dsk)) = Inr ()
            \<longrightarrow> e = SystemExit 1)"
    by (auto simp: main_def)
next
  assume a: "startup_raises S' CONNECT \<and> WorkingPipeline_init L' S' dsk' = (Inr (), w)"
  then have c: "\<not> conn w"
    using WorkingPipeline_init_unreachable by blast
  then show "\<not> conn w" .
  from a show "working_main L' S' dsk' E' n = working_run_pipeline L' E' n w"
    by (simp add: working_main_def)
  from c show "working_save_to_database raises reading prediction w = (Inr (), w)"
    by (rule working_save_to_database_skipped)
  from c show "dispatched (trace (snd (snd (snd (working_run_pipeline L' E' n w))))) = dispatched (trace w)"
    by (rule working_run_pipeline_skips)
qed


lemma working_gen_quiet: "working_generate_sensor_reading (quiet_env k j) sensor =
   \<lparr>temperature = 87 / 4, humidity = 55, sensor_id = sensor, timestamp = 10 * k,
    actual_anomaly = False\<rparr>"
  by (simp add: working_generate_sensor_reading_def quiet_env_def uniform_def round2_def Let_def)

lemma WorkingPipeline_init_database_down:
  "WorkingPipeline_init threshold_sklearn database_down disk_with_model = (Inr (), degraded_pipeline)"
  by (simp add: WorkingPipeline_init_def WorkingPipeline_new_def working_load_model_def
        load_model_def disk_with_model_def AnomalyDetector_init_def fitted_detector_def
        database_down_def working_setup_database_def setup_minio_def try_except_def seq_def
        perform_def Let_def degraded_pipeline_def)

text \<open>
  C9, as the specification states it, fails for dashboard/working_pipeline.py: with the
  connection to PostgreSQL refused at startup the script does not exit; the first batch
  runs to its end and counts five readings.
\<close>

theorem database_unreachable_at_startup_counterexample:
  "startup_raises (database_down :: reading startup) CONNECT \<and>
   fst (working_main threshold_sklearn database_down disk_with_model quiet_env 1) = Inr () \<and>
   fst (snd (working_main threshold_sklearn database_down disk_with_model quiet_env 1)) = 5"
proof -
  have "working_main threshold_sklearn database_down disk_with_model quiet_env 1 =
      working_run_pipeline threshold_sklearn quiet_env 1 degraded_pipeline"
    by (simp add: working_main_def WorkingPipeline_init_database_down)
  moreover have "fst (working_run_pipeline threshold_sklearn quiet_env 1 degraded_pipeline) = Inr () \<and>
      fst (snd (working_run_pipeline threshold_sklearn quiet_env 1 degraded_pipeline)) = 5"
    by (simp add: degraded_pipeline_def working_run_pipeline_def
          working_for_sensor_def working_gen_quiet predict_def fitted_detector_def
          threshold_sklearn_def save_to_minio_def working_save_to_database_def try_except_def
          seq_def perform_def Let_def no_faults_def quiet_env_def)
  moreover have "startup_raises (database_down :: reading startup) CONNECT"
    by (simp add: database_down_def)
  ultimately show ?thesis by simp
qed

lemma pipeline_load_model_disk_with_model:
  "fst (pipeline_load_model threshold_sklearn (training_data database_down)
         (FinalWorkingPipeline_new threshold_sklearn disk_with_model)) = Inr ()"
  by (simp add: pipeline_load_model_def FinalWorkingPipeline_new_def load_model_def
        disk_with_model_def try_except_def)

theorem database_unreachable_at_startup_witness:
  "startup_raises (database_down :: graded_reading startup) CONNECT \<and>
   fst (main threshold_sklearn database_down disk_with_model steady_env 2) = Inl (SystemExit 1) \<and>
   fst (snd (main threshold_sklearn database_down disk_with_model steady_env 2)) = 0 \<and>
   startup_raises (database_down :: reading startup) CONNECT \<and>
   WorkingPipeline_init threshold_sklearn database_down disk_with_model
     = (Inr (), degraded_pipeline) \<and>
   \<not> conn degraded_pipeline \<and>
   dispatched (trace (snd (snd (snd
     (working_main threshold_sklearn database_down disk_with_model quiet_env 2))))) = []"
proof -
  have c: "startup_raises (database_down :: graded_reading startup) CONNECT"
    "startup_raises (database_down :: reading startup) CONNECT"
    by (simp_all add: database_down_def)
  have t: "dispatched (trace degraded_pipeline) = []"
    by (simp add: degraded_pipeline_def dispatched_def)
  note inst = database_unreachable_at_startup
    [where S = database_down and L = threshold_sklearn and dsk = disk_with_model
       and E = steady_env and n = 2 and S' = database_down and L' = threshold_sklearn
       and dsk' = disk_with_model and E' = quiet_env and w = degraded_pipeline
       and raises = no_faults and reading = mild_reading and prediction = NORMAL]
  from inst c t WorkingPipeline_init_database_down pipeline_load_model_disk_with_model
  show ?thesis
    by auto
qed


end
